theory Spec2Isabelle
  imports Main "HOL-Library.Word"
begin

section \<open>The network output of cb-event-forwarder (pkg/outputs/net\_output.go)\<close>

text \<open>
  A shallow embedding of the \<^verbatim>\<open>NetOutput\<close> sink.  The sink's fields are a record; what
  the Go code reaches outside the struct (the sockets of package net, the clock of package
  time, the logrus log, the goroutine it starts) is a second record, the world, passed
  through every operation.  What the environment decides (whether a dial or a write
  succeeds) is an argument of the operation that asks for it.  A Go panic is the left
  summand of the result.  The read/write lock is not modelled: every operation runs alone.
\<close>

subsection \<open>Data\<close>

text \<open>Go's \<^verbatim>\<open>time.Time\<close> and \<^verbatim>\<open>time.Duration\<close>, in nanoseconds; the zero time is 0.\<close>

type_synonym time = int

definition Second :: time where
  "Second = 1000000000"

type_synonym int64 = "64 word"

text \<open>A \<^verbatim>\<open>net.Conn\<close> that is not nil is a handle; nil is \<open>None\<close>.\<close>

type_synonym conn = nat

text \<open>The text of an error of package net; \<open>None\<close> is a nil error.\<close>

type_synonym net_result = "string option"

datatype error =
    ErrConnecting string string
  | ErrWrite string
  | ErrNotOpen

datatype panic = IndexOutOfRange | NilDereference

text \<open>Of the configuration (package config, not part of these sources) the sink reads
  one field.\<close>

record Configuration =
  DryRun :: bool

record NetOutput =
  netConn :: string
  remoteHostname :: string
  protocolName :: string
  outputSocket :: "conn option"
  addNewline :: bool
  connectTime :: time
  reconnectTime :: time
  connected :: bool
  droppedEventCount :: int64
  droppedEventSinceConnection :: int64
  Config :: "Configuration option"

record NetStatistics =
  LastOpenTime :: time
  Protocol :: string
  RemoteHostname :: string
  DroppedEventCount :: int64
  Connected :: bool

datatype log_entry =
    InfoConnected string time
  | InfoDropped int64
  | InfoLostConnection string time
  | InfoSigterm
  | ErrorLine error

text \<open>
  The world: the handles that are open, the next handle a dial returns, every call of
  \<^verbatim>\<open>net.Dial\<close> (network, address), every call of \<^verbatim>\<open>Write\<close> (handle, bytes), the
  writes that went through, the log, the reading of the clock, the control loops started
  and the completions signalled on \<^verbatim>\<open>exitCond\<close>.
\<close>

record world =
  open_conns :: "conn set"
  next_conn :: conn
  dialed :: "(string \<times> string) list"
  write_calls :: "(conn \<times> string) list"
  transmitted :: "(conn \<times> string) list"
  logs :: "log_entry list"
  clock :: time
  loops_started :: nat
  exits_signalled :: nat

subsection \<open>The library calls the sink makes\<close>

text \<open>\<^verbatim>\<open>strings.SplitN(s, sep, n)\<close> for a separator of one byte and \<open>n \<ge> 0\<close>: at most
  \<open>n\<close> pieces, the last one the unsplit rest.\<close>

fun SplitN :: "string \<Rightarrow> char \<Rightarrow> nat \<Rightarrow> string list" where
  "SplitN s sep 0 = []"
| "SplitN s sep (Suc 0) = [s]"
| "SplitN s sep (Suc (Suc n)) =
     (if sep \<in> set s
      then takeWhile (\<lambda>c. c \<noteq> sep) s # SplitN (tl (dropWhile (\<lambda>c. c \<noteq> sep) s)) sep (Suc n)
      else [s])"

definition HasPrefix :: "string \<Rightarrow> string \<Rightarrow> bool" where
  "HasPrefix s p = (take (length p) s = p)"

definition CRLF :: string where
  "CRLF = [CHR 0x0D, CHR 0x0A]"

definition time_Now :: "world \<Rightarrow> time" where
  "time_Now w = clock w"

definition log_line :: "log_entry \<Rightarrow> world \<Rightarrow> world" where
  "log_line e w = w\<lparr>logs := logs w @ [e]\<rparr>"

text \<open>\<^verbatim>\<open>net.Dial\<close>: the environment's answer \<open>r\<close> is an error, and the connection
  returned is nil, or it is nil, and a handle never seen before is open.\<close>

definition net_Dial :: "string \<Rightarrow> string \<Rightarrow> net_result \<Rightarrow> world \<Rightarrow> (conn option \<times> net_result) \<times> world" where
  "net_Dial network address r w =
     (let w1 = w\<lparr>dialed := dialed w @ [(network, address)]\<rparr> in
      case r of
        Some e \<Rightarrow> ((None, Some e), w1)
      | None \<Rightarrow> ((Some (next_conn w1), None),
                 w1\<lparr>open_conns := insert (next_conn w1) (open_conns w1),
                    next_conn := Suc (next_conn w1)\<rparr>))"

definition conn_Close :: "conn \<Rightarrow> world \<Rightarrow> world" where
  "conn_Close c w = w\<lparr>open_conns := open_conns w - {c}\<rparr>"

text \<open>\<^verbatim>\<open>Write\<close> on a handle: it fails on a closed handle whatever the environment
  answers, and otherwise as the environment answers.\<close>

definition conn_Write :: "conn \<Rightarrow> string \<Rightarrow> net_result \<Rightarrow> world \<Rightarrow> net_result \<times> world" where
  "conn_Write c b r w =
     (let res = (if c \<in> open_conns w then r else Some ''use of closed network connection'');
          w1 = w\<lparr>write_calls := write_calls w @ [(c, b)]\<rparr>
      in (res, if res = None then w1\<lparr>transmitted := transmitted w1 @ [(c, b)]\<rparr> else w1))"

subsection \<open>The sink's operations\<close>

definition NewNetOutputfromConfig :: "Configuration option \<Rightarrow> NetOutput" where
  "NewNetOutputfromConfig cfg =
     \<lparr>netConn = [], remoteHostname = [], protocolName = [], outputSocket = None,
      addNewline = False, connectTime = 0, reconnectTime = 0, connected = False,
      droppedEventCount = 0, droppedEventSinceConnection = 0, Config = cfg\<rparr>"

definition markConnected :: "NetOutput \<Rightarrow> world \<Rightarrow> NetOutput \<times> world" where
  "markConnected s w =
     (let s1 = s\<lparr>connectTime := time_Now w\<rparr>;
          w1 = log_line (InfoConnected (netConn s1) (connectTime s1)) w;
          s2 = s1\<lparr>connected := True\<rparr>
      in if droppedEventCount s2 \<noteq> droppedEventSinceConnection s2
         then (s2\<lparr>droppedEventSinceConnection := droppedEventCount s2\<rparr>,
               log_line (InfoDropped (droppedEventCount s2 - droppedEventSinceConnection s2)) w1)
         else (s2, w1))"

text \<open>\<^verbatim>\<open>o.outputSocket.Close()\<close>: a method call on a nil interface panics.\<close>

definition close_socket :: "NetOutput \<Rightarrow> world \<Rightarrow> panic + world" where
  "close_socket s w =
     (case outputSocket s of None \<Rightarrow> Inl NilDereference | Some c \<Rightarrow> Inr (conn_Close c w))"

definition Initialize :: "string \<Rightarrow> net_result \<Rightarrow> NetOutput \<Rightarrow> world \<Rightarrow> panic + (error option \<times> NetOutput \<times> world)" where
  "Initialize nc dial s w =
     (case (if connected s then close_socket s w else Inr w) of
        Inl p \<Rightarrow> Inl p
      | Inr w1 \<Rightarrow>
          (let s1 = s\<lparr>netConn := nc\<rparr>;
               connSpecification = SplitN nc CHR '':'' 2
           in if length connSpecification \<le> 0 then Inl IndexOutOfRange
              else
                let s2 = s1\<lparr>protocolName := connSpecification ! 0\<rparr>
                in if length connSpecification \<le> 1 then Inl IndexOutOfRange
                   else
                     let s3 = s2\<lparr>remoteHostname := connSpecification ! 1\<rparr>;
                         s4 = (if HasPrefix (protocolName s3) ''tcp''
                               then s3\<lparr>addNewline := True\<rparr> else s3)
                     in case net_Dial (protocolName s4) (remoteHostname s4) dial w1 of
                          ((sock, err), w2) \<Rightarrow>
                            (let s5 = s4\<lparr>outputSocket := sock\<rparr>
                             in case err of
                                  Some e \<Rightarrow> Inr (Some (ErrConnecting nc e), s5, w2)
                                | None \<Rightarrow>
                                    (case markConnected s5 w2 of
                                       (s6, w3) \<Rightarrow> Inr (None, s6, w3)))))"

definition closeAndScheduleReconnection :: "NetOutput \<Rightarrow> world \<Rightarrow> panic + (NetOutput \<times> world)" where
  "closeAndScheduleReconnection s w =
     (case (if connected s
            then (case close_socket s w of
                    Inl p \<Rightarrow> Inl p
                  | Inr w1 \<Rightarrow> Inr (s\<lparr>connected := False\<rparr>, w1))
            else Inr (s, w)) of
        Inl p \<Rightarrow> Inl p
      | Inr (s1, w1) \<Rightarrow>
          (let s2 = s1\<lparr>reconnectTime := time_Now w1 + 5 * Second\<rparr>
           in Inr (s2, log_line (InfoLostConnection (netConn s2) (reconnectTime s2)) w1)))"

definition Key :: "NetOutput \<Rightarrow> string" where
  "Key s = netConn s"

definition String :: "NetOutput \<Rightarrow> string" where
  "String s = netConn s"

definition Statistics :: "NetOutput \<Rightarrow> NetStatistics" where
  "Statistics s =
     \<lparr>LastOpenTime = connectTime s, Protocol = protocolName s,
      RemoteHostname = remoteHostname s, DroppedEventCount = droppedEventCount s,
      Connected = connected s\<rparr>"

text \<open>\<^verbatim>\<open>output\<close> (the name is reserved in Isabelle, hence the prime).\<close>

definition output' :: "string \<Rightarrow> net_result \<Rightarrow> NetOutput \<Rightarrow> world \<Rightarrow> panic + (error option \<times> NetOutput \<times> world)" where
  "output' m wr s w =
     (let m1 = (if addNewline s then m @ CRLF else m)
      in if \<not> connected s
         then Inr (None, s\<lparr>droppedEventCount := droppedEventCount s + 1\<rparr>, w)
         else
           case outputSocket s of
             None \<Rightarrow> Inl NilDereference
           | Some c \<Rightarrow>
               (case conn_Write c m1 wr w of
                  (None, w1) \<Rightarrow> Inr (None, s, w1)
                | (Some e, w1) \<Rightarrow>
                    (case closeAndScheduleReconnection s w1 of
                       Inl p \<Rightarrow> Inl p
                     | Inr (s2, w2) \<Rightarrow> Inr (Some (ErrWrite e), s2, w2))))"

subsection \<open>The control loop\<close>

datatype signal = SIGTERM | SIGINT | OtherSignal nat

text \<open>What one round of the \<^verbatim>\<open>select\<close> receives: a message (with the environment's
  answer to the write it may make), a tick of the one-second ticker (with the answer to
  the dial it may make), or a signal.\<close>

datatype event =
    Message string net_result
  | TickEvent net_result
  | SignalEvent signal

text \<open>\<^verbatim>\<open>Go\<close> refuses a sink whose socket is nil and otherwise starts the goroutine.\<close>

definition Go :: "NetOutput \<Rightarrow> world \<Rightarrow> error option \<times> world" where
  "Go s w =
     (if outputSocket s = None then (Some ErrNotOpen, w)
      else (None, w\<lparr>loops_started := Suc (loops_started w)\<rparr>))"

text \<open>One round of the loop; the Boolean tells whether the loop goes on.  Leaving the
  loop runs the deferred \<^verbatim>\<open>exitCond.Signal()\<close>.\<close>

definition on_message :: "string \<Rightarrow> net_result \<Rightarrow> NetOutput \<Rightarrow> world \<Rightarrow> panic + (NetOutput \<times> world)" where
  "on_message m wr s w =
     (case output' m wr s w of
        Inl p \<Rightarrow> Inl p
      | Inr (None, s1, w1) \<Rightarrow> Inr (s1, w1)
      | Inr (Some e, s1, w1) \<Rightarrow>
          (case Config s1 of
             None \<Rightarrow> Inl NilDereference
           | Some cfg \<Rightarrow>
               if \<not> DryRun cfg then Inr (s1, log_line (ErrorLine e) w1) else Inr (s1, w1)))"

definition on_tick :: "net_result \<Rightarrow> NetOutput \<Rightarrow> world \<Rightarrow> panic + (NetOutput \<times> world)" where
  "on_tick dial s w =
     (if \<not> connected s \<and> time_Now w > reconnectTime s
      then
        case Initialize (netConn s) dial s w of
          Inl p \<Rightarrow> Inl p
        | Inr (None, s1, w1) \<Rightarrow> Inr (s1, w1)
        | Inr (Some e, s1, w1) \<Rightarrow> closeAndScheduleReconnection s1 w1
      else Inr (s, w))"

fun loop_step :: "event \<Rightarrow> NetOutput \<Rightarrow> world \<Rightarrow> panic + (bool \<times> NetOutput \<times> world)" where
  "loop_step (Message m wr) s w =
     (case on_message m wr s w of Inl p \<Rightarrow> Inl p | Inr (s1, w1) \<Rightarrow> Inr (True, s1, w1))"
| "loop_step (TickEvent dial) s w =
     (case on_tick dial s w of Inl p \<Rightarrow> Inl p | Inr (s1, w1) \<Rightarrow> Inr (True, s1, w1))"
| "loop_step (SignalEvent SIGTERM) s w =
     Inr (False, s, (log_line InfoSigterm w)\<lparr>exits_signalled := Suc (exits_signalled w)\<rparr>)"
| "loop_step (SignalEvent SIGINT) s w =
     Inr (False, s, (log_line InfoSigterm w)\<lparr>exits_signalled := Suc (exits_signalled w)\<rparr>)"
| "loop_step (SignalEvent (OtherSignal n)) s w = Inr (True, s, w)"

subsection \<open>Histories\<close>

text \<open>The world at process start: no socket, nothing dialled, written or logged, the
  clock at 0.\<close>

definition idle_world :: world where
  "idle_world =
     \<lparr>open_conns = {}, next_conn = 0, dialed = [], write_calls = [], transmitted = [],
      logs = [], clock = 0, loops_started = 0, exits_signalled = 0\<rparr>"

text \<open>
  The calls that change a sink: \<^verbatim>\<open>Initialize\<close> (by the owner, or by the loop's tick),
  \<^verbatim>\<open>output\<close> (by the loop, for a message) and \<^verbatim>\<open>closeAndScheduleReconnection\<close> (by
  the loop, after a failed reconnection).  A history is a list of them, run in order; a
  panic ends it.
\<close>

datatype call =
    DoInitialize string net_result
  | DoOutput string net_result
  | DoClose

fun do_call :: "call \<Rightarrow> NetOutput \<Rightarrow> world \<Rightarrow> panic + (error option \<times> NetOutput \<times> world)" where
  "do_call (DoInitialize nc dial) s w = Initialize nc dial s w"
| "do_call (DoOutput m wr) s w = output' m wr s w"
| "do_call DoClose s w =
     (case closeAndScheduleReconnection s w of
        Inl p \<Rightarrow> Inl p
      | Inr (s1, w1) \<Rightarrow> Inr (None, s1, w1))"

fun run_calls :: "call list \<Rightarrow> NetOutput \<Rightarrow> world \<Rightarrow> panic + (NetOutput \<times> world)" where
  "run_calls [] s w = Inr (s, w)"
| "run_calls (c # cs) s w =
     (case do_call c s w of
        Inl p \<Rightarrow> Inl p
      | Inr (e, s1, w1) \<Rightarrow> run_calls cs s1 w1)"

text \<open>What the \<^verbatim>\<open>Initialize\<close> calls of a history returned, in order.\<close>

fun init_results :: "call list \<Rightarrow> NetOutput \<Rightarrow> world \<Rightarrow> error option list" where
  "init_results [] s w = []"
| "init_results (c # cs) s w =
     (case do_call c s w of
        Inl p \<Rightarrow> []
      | Inr (e, s1, w1) \<Rightarrow>
          (case c of
             DoInitialize nc dial \<Rightarrow> e # init_results cs s1 w1
           | DoOutput m wr \<Rightarrow> init_results cs s1 w1
           | DoClose \<Rightarrow> init_results cs s1 w1))"

text \<open>The sink and the world right after a first \<^verbatim>\<open>Initialize("tcp:h:1")\<close> whose dial
  succeeded (lemma \<open>connected_reached\<close> below), at process start.\<close>

definition connected_sink :: NetOutput where
  "connected_sink =
     \<lparr>netConn = ''tcp:h:1'', remoteHostname = ''h:1'', protocolName = ''tcp'',
      outputSocket = Some 0, addNewline = True, connectTime = 0, reconnectTime = 0,
      connected = True, droppedEventCount = 0, droppedEventSinceConnection = 0,
      Config = None\<rparr>"

definition connected_world :: world where
  "connected_world =
     \<lparr>open_conns = {0}, next_conn = 1, dialed = [(''tcp'', ''h:1'')], write_calls = [],
      transmitted = [], logs = [InfoConnected ''tcp:h:1'' 0], clock = 0, loops_started = 0,
      exits_signalled = 0\<rparr>"

text \<open>The world with the error lines of its log left out.\<close>

definition without_error_lines :: "world \<Rightarrow> world" where
  "without_error_lines w =
     w\<lparr>logs := filter (\<lambda>l. case l of ErrorLine e \<Rightarrow> False | _ \<Rightarrow> True) (logs w)\<rparr>"

section \<open>Properties\<close>

lemma SplitN_first_colon:
  "CHR '':'' \<in> set nc \<Longrightarrow>
   SplitN nc CHR '':'' 2 =
     [takeWhile (\<lambda>c. c \<noteq> CHR '':'') nc, tl (dropWhile (\<lambda>c. c \<noteq> CHR '':'') nc)]"
  by (simp add: numeral_2_eq_2)

lemma SplitN_no_colon:
  "CHR '':'' \<notin> set nc \<Longrightarrow> SplitN nc CHR '':'' 2 = [nc]"
  by (simp add: numeral_2_eq_2)

lemma markConnected_eq:
  "markConnected s w =
     (s\<lparr>connectTime := clock w, connected := True,
        droppedEventSinceConnection := droppedEventCount s\<rparr>,
      w\<lparr>logs := logs w @
           (if droppedEventCount s \<noteq> droppedEventSinceConnection s
            then [InfoConnected (netConn s) (clock w),
                  InfoDropped (droppedEventCount s - droppedEventSinceConnection s)]
            else [InfoConnected (netConn s) (clock w)])\<rparr>)"
  by (auto simp: markConnected_def time_Now_def log_line_def Let_def)

subsection \<open>What each operation computes\<close>

lemma output'_connected:
  assumes "connected s" and "outputSocket s = Some c"
  shows "output' m wr s w =
     (case fst (conn_Write c (if addNewline s then m @ CRLF else m) wr w) of
        None \<Rightarrow>
          Inr (None, s,
               w\<lparr>write_calls := write_calls w @ [(c, if addNewline s then m @ CRLF else m)],
                 transmitted := transmitted w @ [(c, if addNewline s then m @ CRLF else m)]\<rparr>)
      | Some e \<Rightarrow>
          Inr (Some (ErrWrite e),
               s\<lparr>connected := False, reconnectTime := clock w + 5 * Second\<rparr>,
               w\<lparr>open_conns := open_conns w - {c},
                 write_calls := write_calls w @ [(c, if addNewline s then m @ CRLF else m)],
                 logs := logs w @ [InfoLostConnection (netConn s) (clock w + 5 * Second)]\<rparr>))"
  using assms
  by (auto simp: output'_def conn_Write_def closeAndScheduleReconnection_def close_socket_def
      conn_Close_def time_Now_def log_line_def Let_def split: if_splits option.splits)

lemma Initialize_colon:
  assumes "CHR '':'' \<in> set nc" and "\<not> (connected s \<and> outputSocket s = None)"
  shows "Initialize nc dial s w =
    (let w1 = (if connected s then conn_Close (the (outputSocket s)) w else w);
         proto = takeWhile (\<lambda>c. c \<noteq> CHR '':'') nc;
         host = tl (dropWhile (\<lambda>c. c \<noteq> CHR '':'') nc);
         s4 = s\<lparr>netConn := nc, protocolName := proto, remoteHostname := host,
                addNewline := (HasPrefix proto ''tcp'' \<or> addNewline s)\<rparr>;
         w2 = w1\<lparr>dialed := dialed w1 @ [(proto, host)]\<rparr>
     in case dial of
          Some e \<Rightarrow> Inr (Some (ErrConnecting nc e), s4\<lparr>outputSocket := None\<rparr>, w2)
        | None \<Rightarrow>
            (case markConnected (s4\<lparr>outputSocket := Some (next_conn w2)\<rparr>)
                    (w2\<lparr>open_conns := insert (next_conn w2) (open_conns w2),
                        next_conn := Suc (next_conn w2)\<rparr>) of
               (s6, w3) \<Rightarrow> Inr (None, s6, w3)))"
  using assms
  by (auto simp: Initialize_def SplitN_first_colon close_socket_def net_Dial_def Let_def
      split: option.splits)

lemma Initialize_Inr_pre:
  assumes "Initialize nc dial s w = Inr r"
  shows "CHR '':'' \<in> set nc \<and> \<not> (connected s \<and> outputSocket s = None)"
proof -
  have "CHR '':'' \<in> set nc"
  proof (rule ccontr)
    assume "CHR '':'' \<notin> set nc"
    then have "Initialize nc dial s w = Inl IndexOutOfRange \<or> Initialize nc dial s w = Inl NilDereference"
      by (auto simp: Initialize_def SplitN_no_colon close_socket_def Let_def split: option.splits)
    with assms show False by auto
  qed
  moreover have "\<not> (connected s \<and> outputSocket s = None)"
    using assms by (cases "outputSocket s") (auto simp: Initialize_def close_socket_def)
  ultimately show ?thesis by simp
qed

lemma Initialize_socket:
  assumes "Initialize nc dial s w = Inr (e, s1, w1)"
  shows "(outputSocket s1 = None) = (e \<noteq> None)"
  using assms Initialize_Inr_pre [OF assms]
  by (auto simp: Initialize_colon markConnected_eq Let_def split: option.splits)

lemma output'_socket:
  assumes "output' m wr s w = Inr (e, s1, w1)"
  shows "outputSocket s1 = outputSocket s"
proof (cases "connected s")
  case False
  with assms show ?thesis by (auto simp: output'_def)
next
  case True
  with assms obtain c where c: "outputSocket s = Some c"
    by (cases "outputSocket s") (auto simp: output'_def)
  show ?thesis
    using assms by (auto simp: output'_connected [OF True c] split: option.splits)
qed

lemma closeAndScheduleReconnection_socket:
  assumes "closeAndScheduleReconnection s w = Inr (s1, w1)"
  shows "outputSocket s1 = outputSocket s"
  using assms
  by (auto simp: closeAndScheduleReconnection_def close_socket_def Let_def
      split: if_splits option.splits sum.splits)

lemma run_calls_socket:
  "run_calls cs s0 w0 = Inr (s, w) \<Longrightarrow>
   (outputSocket s = None) =
     (if init_results cs s0 w0 = [] then outputSocket s0 = None
      else last (init_results cs s0 w0) \<noteq> None)"
proof (induction cs arbitrary: s0 w0)
  case Nil
  then show ?case by simp
next
  case (Cons c cs)
  from Cons.prems obtain e s1 w1 where
    step: "do_call c s0 w0 = Inr (e, s1, w1)" and rest: "run_calls cs s1 w1 = Inr (s, w)"
    by (auto split: sum.splits)
  note IH = Cons.IH [OF rest]
  show ?case
  proof (cases c)
    case (DoInitialize nc dial)
    with step have "(outputSocket s1 = None) = (e \<noteq> None)"
      by (simp add: Initialize_socket)
    with IH step DoInitialize show ?thesis by simp
  next
    case (DoOutput m wr)
    with step have "outputSocket s1 = outputSocket s0"
      by (simp add: output'_socket)
    with IH step DoOutput show ?thesis by simp
  next
    case DoClose
    with step have "outputSocket s1 = outputSocket s0"
      by (auto simp: closeAndScheduleReconnection_socket split: sum.splits)
    with IH step DoClose show ?thesis by simp
  qed
qed

lemma connected_reached:
  "Initialize ''tcp:h:1'' None (NewNetOutputfromConfig None) idle_world = Inr (None, connected_sink, connected_world)"
  by (simp add: Initialize_colon NewNetOutputfromConfig_def idle_world_def markConnected_eq
      HasPrefix_def connected_sink_def connected_world_def conn_Close_def Let_def)

lemma output'_Config:
  "output' m wr (s\<lparr>Config := c\<rparr>) w =
     (case output' m wr s w of
        Inl p \<Rightarrow> Inl p
      | Inr (err, s1, w1) \<Rightarrow> Inr (err, s1\<lparr>Config := c\<rparr>, w1))"
  by (auto simp: output'_def conn_Write_def closeAndScheduleReconnection_def close_socket_def
      Let_def split: option.splits)

lemma on_message_Config:
  "on_message m wr (s\<lparr>Config := Some cfg\<rparr>) w =
     (case output' m wr s w of
        Inl p \<Rightarrow> Inl p
      | Inr (err, s1, w1) \<Rightarrow>
          Inr (s1\<lparr>Config := Some cfg\<rparr>,
               case err of
                 None \<Rightarrow> w1
               | Some e \<Rightarrow> if DryRun cfg then w1 else log_line (ErrorLine e) w1))"
  by (auto simp: on_message_def output'_Config split: sum.splits option.splits)

subsection \<open>Messages offered to a disconnected sink\<close>

text \<open>
  Claim C1.  For every message offered to the sink while \<open>connected\<close> is false,
  \<^verbatim>\<open>output\<close> discards it: it returns a nil error, \<open>droppedEventCount\<close> is one more
  than before (in the arithmetic of Go's \<^verbatim>\<open>int64\<close>, which \<^verbatim>\<open>atomic.AddInt64\<close>
  uses), no other field of the sink changes, and the world is the one before the call: no
  \<^verbatim>\<open>Write\<close> is made, nothing is transmitted, nothing is logged.
\<close>

theorem output_disconnected_discards:
  assumes "\<not> connected s"
  shows "output' m wr s w = Inr (None, s\<lparr>droppedEventCount := droppedEventCount s + 1\<rparr>, w)"
  using assms by (simp add: output'_def)

theorem output_disconnected_discards_witness:
  "\<not> connected (NewNetOutputfromConfig None) \<and>
   output' ''event'' None (NewNetOutputfromConfig None) idle_world =
     Inr (None, (NewNetOutputfromConfig None)\<lparr>droppedEventCount := 1\<rparr>, idle_world)"
  using output_disconnected_discards [of "NewNetOutputfromConfig None" "''event''" None idle_world]
  by (simp add: NewNetOutputfromConfig_def)

subsection \<open>The specification string\<close>

text \<open>
  Claim C2.  \<^verbatim>\<open>Initialize\<close> splits the specification at its first colon only (lemma
  \<open>SplitN_first_colon\<close>), but a specification with no colon is not reported as an error:
  \<^verbatim>\<open>SplitN\<close> returns one piece, and \<^verbatim>\<open>connSpecification[1]\<close> panics with an index
  out of range, before any dial and whatever the dial would have answered.
\<close>

theorem Initialize_without_colon_panics:
  "Initialize ''localhost'' dial (NewNetOutputfromConfig cfg) w = Inl IndexOutOfRange"
  by (simp add: Initialize_def SplitN_no_colon NewNetOutputfromConfig_def)

subsection \<open>A dial that fails on a connected sink\<close>

text \<open>
  Claim C3.  On the connected sink, \<^verbatim>\<open>Initialize\<close> closes the socket and does not clear
  \<open>connected\<close>; when the dial then fails, the error is returned, the socket is nil and
  \<open>connected\<close> is still true.  The next \<^verbatim>\<open>output\<close> calls \<^verbatim>\<open>Write\<close> on the nil
  socket and panics.
\<close>

theorem failed_reinitialize_stays_connected:
  "Initialize ''tcp:h:1'' (Some ''refused'') connected_sink connected_world =
     Inr (Some (ErrConnecting ''tcp:h:1'' ''refused''),
          connected_sink\<lparr>outputSocket := None\<rparr>,
          connected_world\<lparr>open_conns := {}, dialed := [(''tcp'', ''h:1''), (''tcp'', ''h:1'')]\<rparr>) \<and>
   connected (connected_sink\<lparr>outputSocket := None\<rparr>) \<and>
   output' ''event'' None (connected_sink\<lparr>outputSocket := None\<rparr>)
     (connected_world\<lparr>open_conns := {}, dialed := [(''tcp'', ''h:1''), (''tcp'', ''h:1'')]\<rparr>) =
     Inl NilDereference"
  by (simp add: Initialize_colon connected_sink_def connected_world_def
      conn_Close_def HasPrefix_def output'_def Let_def)

subsection \<open>A write that fails\<close>

text \<open>
  Claim C4.  When the write of a connected sink fails with \<open>e\<close> (the environment says
  so, or the handle is closed), \<^verbatim>\<open>output\<close> returns that error; the socket is closed,
  \<open>connected\<close> is false and \<open>reconnectTime\<close> is the clock's reading plus five seconds;
  no other field of the sink changes.  \<^verbatim>\<open>Write\<close> was called once, with the framed
  message; nothing was transmitted and the sink keeps no copy of the message.
\<close>

theorem output_write_failure:
  assumes "connected s" and "outputSocket s = Some c"
    and "fst (conn_Write c (if addNewline s then m @ CRLF else m) wr w) = Some e"
  shows "output' m wr s w =
     Inr (Some (ErrWrite e),
          s\<lparr>connected := False, reconnectTime := clock w + 5 * Second\<rparr>,
          w\<lparr>open_conns := open_conns w - {c},
            write_calls := write_calls w @ [(c, if addNewline s then m @ CRLF else m)],
            logs := logs w @ [InfoLostConnection (netConn s) (clock w + 5 * Second)]\<rparr>)"
  using assms by (simp add: output'_connected)

theorem output_write_failure_witness:
  "connected connected_sink \<and> outputSocket connected_sink = Some 0 \<and>
   fst (conn_Write 0 (if addNewline connected_sink then ''event'' @ CRLF else ''event'')
          (Some ''broken pipe'') connected_world) = Some ''broken pipe'' \<and>
   output' ''event'' (Some ''broken pipe'') connected_sink connected_world =
     Inr (Some (ErrWrite ''broken pipe''),
          connected_sink\<lparr>connected := False, reconnectTime := 5000000000\<rparr>,
          connected_world\<lparr>open_conns := {},
            write_calls := [(0, ''event'' @ CRLF)],
            logs := [InfoConnected ''tcp:h:1'' 0, InfoLostConnection ''tcp:h:1'' 5000000000]\<rparr>)"
  using output_write_failure
    [of connected_sink 0 "''event''" "Some ''broken pipe''" connected_world "''broken pipe''"]
  by (simp add: connected_sink_def connected_world_def conn_Write_def Second_def)

subsection \<open>A dial that succeeds\<close>

text \<open>
  Claim C5.  For a specification with a colon and a sink that \<^verbatim>\<open>Initialize\<close> can close
  (it is not marked connected over a nil socket), a dial that succeeds makes
  \<^verbatim>\<open>Initialize\<close> return nil with \<open>connectTime\<close> the clock's reading and \<open>connected\<close>
  true.  The log gets the connection line and, exactly when \<open>droppedEventCount\<close> differs
  from \<open>droppedEventSinceConnection\<close>, a line with their difference; afterwards
  \<open>droppedEventSinceConnection\<close> is the running total, which is unchanged.
\<close>

theorem Initialize_success_marks_connected:
  assumes "CHR '':'' \<in> set nc" and "\<not> (connected s \<and> outputSocket s = None)"
  shows "\<exists>s' w'. Initialize nc None s w = Inr (None, s', w') \<and>
           connectTime s' = clock w \<and> connected s' \<and>
           droppedEventCount s' = droppedEventCount s \<and>
           droppedEventSinceConnection s' = droppedEventCount s \<and>
           logs w' = logs w @
             (if droppedEventCount s \<noteq> droppedEventSinceConnection s
              then [InfoConnected nc (clock w),
                    InfoDropped (droppedEventCount s - droppedEventSinceConnection s)]
              else [InfoConnected nc (clock w)])"
  using assms
  by (simp add: Initialize_colon markConnected_eq conn_Close_def Let_def)

theorem Initialize_success_marks_connected_witness:
  "CHR '':'' \<in> set ''tcp:h:1'' \<and>
   \<not> (connected ((NewNetOutputfromConfig None)\<lparr>droppedEventCount := 3\<rparr>) \<and>
      outputSocket ((NewNetOutputfromConfig None)\<lparr>droppedEventCount := 3\<rparr>) = None) \<and>
   (\<exists>s' w'. Initialize ''tcp:h:1'' None ((NewNetOutputfromConfig None)\<lparr>droppedEventCount := 3\<rparr>)
               (idle_world\<lparr>clock := 7\<rparr>) = Inr (None, s', w') \<and>
      connectTime s' = 7 \<and> connected s' \<and> droppedEventCount s' = 3 \<and>
      droppedEventSinceConnection s' = 3 \<and>
      logs w' = [InfoConnected ''tcp:h:1'' 7, InfoDropped 3])"
  using Initialize_success_marks_connected
    [of "''tcp:h:1''" "(NewNetOutputfromConfig None)\<lparr>droppedEventCount := 3\<rparr>"
        "idle_world\<lparr>clock := 7\<rparr>"]
  by (simp add: NewNetOutputfromConfig_def idle_world_def)

subsection \<open>Framing\<close>

text \<open>
  Claim C6.  \<^verbatim>\<open>Initialize\<close> sets \<open>addNewline\<close> for a protocol name that starts with
  tcp and never clears it.  A sink initialised for tcp and then for udp, both dials
  succeeding, still appends the carriage return and line feed: the datagram socket (handle
  1) is handed the three bytes of the message x followed by the pair.
\<close>

theorem udp_after_tcp_keeps_newline:
  "run_calls [DoInitialize ''tcp:h:1'' None, DoInitialize ''udp:h:1'' None, DoOutput ''x'' None]
      (NewNetOutputfromConfig None) idle_world =
     Inr (connected_sink\<lparr>netConn := ''udp:h:1'', protocolName := ''udp'', outputSocket := Some 1\<rparr>,
          \<lparr>open_conns = {1}, next_conn = 2, dialed = [(''tcp'', ''h:1''), (''udp'', ''h:1'')],
           write_calls = [(1, ''x'' @ CRLF)], transmitted = [(1, ''x'' @ CRLF)],
           logs = [InfoConnected ''tcp:h:1'' 0, InfoConnected ''udp:h:1'' 0], clock = 0,
           loops_started = 0, exits_signalled = 0\<rparr>)"
  by (simp add: connected_reached Initialize_colon connected_sink_def connected_world_def
      conn_Close_def HasPrefix_def markConnected_eq output'_connected conn_Write_def Let_def)

subsection \<open>Starting the control loop\<close>

text \<open>
  Claim C7, as the code has it.  After any history of calls on a new sink that did not
  panic, \<^verbatim>\<open>Go\<close> returns the error "Output socket not open", and starts nothing, exactly
  when the socket is nil: no \<^verbatim>\<open>Initialize\<close> has returned yet, or the last one that
  returned reported a failed dial.  Otherwise it starts one control loop and returns nil.
\<close>

theorem Go_refuses_iff_socket_nil:
  assumes "run_calls cs (NewNetOutputfromConfig cfg) w0 = Inr (s, w)"
  shows "Go s w =
     (if init_results cs (NewNetOutputfromConfig cfg) w0 = []
         \<or> last (init_results cs (NewNetOutputfromConfig cfg) w0) \<noteq> None
      then (Some ErrNotOpen, w)
      else (None, w\<lparr>loops_started := Suc (loops_started w)\<rparr>))"
  using run_calls_socket [OF assms]
  by (auto simp: Go_def NewNetOutputfromConfig_def)

theorem Go_refuses_iff_socket_nil_witness:
  "run_calls [DoInitialize ''tcp:h:1'' None] (NewNetOutputfromConfig None) idle_world =
     Inr (connected_sink, connected_world) \<and>
   Go connected_sink connected_world = (None, connected_world\<lparr>loops_started := 1\<rparr>)"
  using Go_refuses_iff_socket_nil
    [of "[DoInitialize ''tcp:h:1'' None]" None idle_world connected_sink connected_world]
  by (simp add: connected_reached connected_world_def)

text \<open>
  The claim as it was stated (the error if and only if no \<^verbatim>\<open>Initialize\<close> has succeeded
  yet) fails after a success followed by a failure: the first \<^verbatim>\<open>Initialize\<close> returned
  nil, the second stored the nil connection of the failed dial, and \<^verbatim>\<open>Go\<close> refuses.
\<close>

theorem Go_after_failed_reinitialize_counterexample:
  "init_results [DoInitialize ''tcp:h:1'' None, DoInitialize ''tcp:h:1'' (Some ''refused'')]
      (NewNetOutputfromConfig None) idle_world =
     [None, Some (ErrConnecting ''tcp:h:1'' ''refused'')] \<and>
   run_calls [DoInitialize ''tcp:h:1'' None, DoInitialize ''tcp:h:1'' (Some ''refused'')]
      (NewNetOutputfromConfig None) idle_world =
     Inr (connected_sink\<lparr>outputSocket := None\<rparr>,
          connected_world\<lparr>open_conns := {}, dialed := [(''tcp'', ''h:1''), (''tcp'', ''h:1'')]\<rparr>) \<and>
   Go (connected_sink\<lparr>outputSocket := None\<rparr>)
      (connected_world\<lparr>open_conns := {}, dialed := [(''tcp'', ''h:1''), (''tcp'', ''h:1'')]\<rparr>) =
     (Some ErrNotOpen,
      connected_world\<lparr>open_conns := {}, dialed := [(''tcp'', ''h:1''), (''tcp'', ''h:1'')]\<rparr>)"
  by (simp add: connected_reached Initialize_colon connected_sink_def connected_world_def
      conn_Close_def HasPrefix_def Go_def Let_def)

subsection \<open>Dry-run mode\<close>

text \<open>
  Claim C8.  For a sink with a configuration, handling a message is \<^verbatim>\<open>output\<close> on the
  sink, which never reads the configuration, followed by one error line in the log when
  \<^verbatim>\<open>output\<close> returned an error and \<open>DryRun\<close> is false.  So the run with the flag set
  and the run with the flag clear panic alike or end in the same sink (the flag apart) and
  the same world (the error lines of the log apart).
\<close>

theorem DryRun_only_suppresses_error_log:
  "on_message m wr (s\<lparr>Config := Some cfg\<rparr>) w =
     (case output' m wr s w of
        Inl p \<Rightarrow> Inl p
      | Inr (err, s1, w1) \<Rightarrow>
          Inr (s1\<lparr>Config := Some cfg\<rparr>,
               case err of
                 None \<Rightarrow> w1
               | Some e \<Rightarrow> if DryRun cfg then w1 else log_line (ErrorLine e) w1)) \<and>
   map_sum id (\<lambda>(s1, w1). (s1\<lparr>Config := None\<rparr>, without_error_lines w1))
       (on_message m wr (s\<lparr>Config := Some \<lparr>DryRun = True\<rparr>\<rparr>) w) =
   map_sum id (\<lambda>(s1, w1). (s1\<lparr>Config := None\<rparr>, without_error_lines w1))
       (on_message m wr (s\<lparr>Config := Some \<lparr>DryRun = False\<rparr>\<rparr>) w)"
  by (auto simp: on_message_Config without_error_lines_def log_line_def
      split: sum.splits option.splits)

subsection \<open>What the drop counter counts\<close>

text \<open>
  Claim C9.  A write that fails on a connected sink makes \<^verbatim>\<open>output\<close> return the error
  with \<open>droppedEventCount\<close> as it was and nothing transmitted.  Whenever \<^verbatim>\<open>output\<close>
  returns, the counter is unchanged if the sink was connected at the call and one more if it
  was not.
\<close>

theorem write_failure_is_not_counted:
  "(connected s \<and> outputSocket s = Some c \<and>
    fst (conn_Write c (if addNewline s then m @ CRLF else m) wr w) = Some e \<longrightarrow>
      (\<exists>s' w'. output' m wr s w = Inr (Some (ErrWrite e), s', w') \<and>
         droppedEventCount s' = droppedEventCount s \<and> transmitted w' = transmitted w)) \<and>
   (\<forall>err s' w'. output' m wr s w = Inr (err, s', w') \<longrightarrow>
      droppedEventCount s' =
        (if connected s then droppedEventCount s else droppedEventCount s + 1))"
proof (intro conjI impI allI)
  assume "connected s \<and> outputSocket s = Some c \<and>
    fst (conn_Write c (if addNewline s then m @ CRLF else m) wr w) = Some e"
  then show "\<exists>s' w'. output' m wr s w = Inr (Some (ErrWrite e), s', w') \<and>
         droppedEventCount s' = droppedEventCount s \<and> transmitted w' = transmitted w"
    by (simp add: output'_connected)
next
  fix err s' w'
  assume r: "output' m wr s w = Inr (err, s', w')"
  show "droppedEventCount s' =
        (if connected s then droppedEventCount s else droppedEventCount s + 1)"
  proof (cases "connected s")
    case False
    with r show ?thesis by (auto simp: output'_def)
  next
    case True
    with r obtain c' where c': "outputSocket s = Some c'"
      by (cases "outputSocket s") (auto simp: output'_def)
    from r show ?thesis
      by (auto simp: output'_connected [OF True c'] True split: option.splits)
  qed
qed

theorem write_failure_is_not_counted_witness:
  "connected connected_sink \<and> outputSocket connected_sink = Some 0 \<and>
   fst (conn_Write 0 (if addNewline connected_sink then ''event'' @ CRLF else ''event'')
          (Some ''broken pipe'') connected_world) = Some ''broken pipe'' \<and>
   (\<exists>s' w'. output' ''event'' (Some ''broken pipe'') connected_sink connected_world =
        Inr (Some (ErrWrite ''broken pipe''), s', w') \<and>
      droppedEventCount s' = 0 \<and> transmitted w' = [])"
  using write_failure_is_not_counted
    [of connected_sink 0 "''event''" "Some ''broken pipe''" connected_world "''broken pipe''"]
  by (simp add: connected_sink_def connected_world_def conn_Write_def)

subsection \<open>Identity after a failed \<^verbatim>\<open>Initialize\<close>\<close>

text \<open>
  Claim C10.  For a specification with a colon and a sink that \<^verbatim>\<open>Initialize\<close> can close,
  a dial that fails makes \<^verbatim>\<open>Initialize\<close> return the connection error, and the dial was
  made with the protocol and target of the new specification.  Afterwards \<^verbatim>\<open>Key\<close> and
  \<^verbatim>\<open>String\<close> are the new specification and \<^verbatim>\<open>Statistics\<close> reports its protocol and
  target, whatever the sink held before.
\<close>

theorem failed_Initialize_reports_new_target:
  assumes "CHR '':'' \<in> set nc" and "\<not> (connected s \<and> outputSocket s = None)"
  shows "\<exists>s' w'. Initialize nc (Some e) s w = Inr (Some (ErrConnecting nc e), s', w') \<and>
           Key s' = nc \<and> String s' = nc \<and>
           Protocol (Statistics s') = takeWhile (\<lambda>c. c \<noteq> CHR '':'') nc \<and>
           RemoteHostname (Statistics s') = tl (dropWhile (\<lambda>c. c \<noteq> CHR '':'') nc) \<and>
           dialed w' = dialed w @ [(takeWhile (\<lambda>c. c \<noteq> CHR '':'') nc,
                                    tl (dropWhile (\<lambda>c. c \<noteq> CHR '':'') nc))]"
  using assms
  by (simp add: Initialize_colon Key_def String_def Statistics_def conn_Close_def Let_def)

theorem failed_Initialize_reports_new_target_witness:
  "CHR '':'' \<in> set ''udp:other:9'' \<and>
   \<not> (connected connected_sink \<and> outputSocket connected_sink = None) \<and>
   Key connected_sink = ''tcp:h:1'' \<and>
   (\<exists>s' w'. Initialize ''udp:other:9'' (Some ''refused'') connected_sink connected_world =
        Inr (Some (ErrConnecting ''udp:other:9'' ''refused''), s', w') \<and>
      Key s' = ''udp:other:9'' \<and> String s' = ''udp:other:9'' \<and>
      Protocol (Statistics s') = ''udp'' \<and> RemoteHostname (Statistics s') = ''other:9'' \<and>
      dialed w' = [(''tcp'', ''h:1''), (''udp'', ''other:9'')])"
  using failed_Initialize_reports_new_target
    [of "''udp:other:9''" connected_sink "''refused''" connected_world]
  by (simp add: connected_sink_def connected_world_def Key_def)

end
